theory Spec2Isabelle
  imports Complex_Main "HOL-Library.Sublist"
begin

section \<open>Data model (src/src/types.ts)\<close>

text \<open>
  A JavaScript string is a sequence of UTF-16 code units. The model is \<^typ>\<open>string\<close>, a list
  of \<^typ>\<open>char\<close>, each \<^typ>\<open>char\<close> read as one code unit below 256 (the Latin-1 range). Every
  path of the two registries and every literal of the source is ASCII.

  The priority of a check is the closed union \<^verbatim>\<open>'required' | 'recommended' | 'optional'\<close>.
  The interfaces \<^verbatim>\<open>DirectoryCheck\<close> and \<^verbatim>\<open>FileCheck\<close> have the same four fields, so in
  TypeScript's structural typing they are one type; the optional \<^verbatim>\<open>template\<close> is an option.
  The field \<^verbatim>\<open>score\<close> of the two result interfaces is \<open>structureScore\<close> in one record and
  \<open>communityScore\<close> in the other.
\<close>

datatype priority = Required | Recommended | Optional

record FileCheck =
  path :: string
  purpose :: string
  priority :: priority
  template :: "string option"

type_synonym DirectoryCheck = FileCheck

record RepoStructure =
  missingDirs :: "DirectoryCheck list"
  presentDirs :: "string list"
  structureScore :: int

record CommunityStandards =
  missingFiles :: "FileCheck list"
  presentFiles :: "string list"
  communityScore :: int

section \<open>String primitives of the host language\<close>

text \<open>
  \<^verbatim>\<open>String.prototype.toLowerCase\<close> on code units below 256: the letters A to Z and the
  Latin-1 capitals U+00C0 to U+00DE (without the multiplication sign U+00D7) move up by 32,
  every other code unit stays.
\<close>

definition toLowerCaseUnit :: "char \<Rightarrow> char" where
  "toLowerCaseUnit c =
     (let n = (of_char c :: nat) in
      if (65 \<le> n \<and> n \<le> 90) \<or> (192 \<le> n \<and> n \<le> 222 \<and> n \<noteq> 215)
      then char_of (n + 32) else c)"

definition toLowerCase :: "string \<Rightarrow> string" where
  "toLowerCase s = map toLowerCaseUnit s"

text \<open>\<^verbatim>\<open>s.startsWith(p)\<close>.\<close>

definition startsWith :: "string \<Rightarrow> string \<Rightarrow> bool" where
  "startsWith s p = prefix p s"

text \<open>
  \<^verbatim>\<open>Math.round\<close>: the nearest integer, a tie going up. The quotient
  \<^verbatim>\<open>(earnedPoints / maxPoints) * 100\<close> is computed on exact rationals: the two registries
  give \<^verbatim>\<open>maxPoints\<close> 42 and 46, so a quotient that is not an integer is at least 1/46 away
  from a tie, far more than the error of double arithmetic, and the quotients 0, 1/2 and 1
  are exact in doubles.
\<close>

definition Math_round :: "rat \<Rightarrow> int" where
  "Math_round x = \<lfloor>x + 1 / 2\<rfloor>"

text \<open>\<^verbatim>\<open>getPriorityWeight\<close> (declared once in each of the two modules, with the same body).\<close>

fun getPriorityWeight :: "priority \<Rightarrow> nat" where
  "getPriorityWeight Required = 10"
| "getPriorityWeight Recommended = 5"
| "getPriorityWeight Optional = 1"

section \<open>Repo structure bootstrapper\<close>

text \<open>
  The module that the tests import as \<^verbatim>\<open>../src/bootstrap\<close>; its text is the second part of
  the file \<^verbatim>\<open>src/src/community.ts\<close> (from line 220 on).
\<close>

definition STANDARD_DIRECTORIES :: "DirectoryCheck list" where
  "STANDARD_DIRECTORIES =
    [\<lparr>path = ''src/'', purpose = ''Source code'', priority = Required,
      template = Some ''# Source Code\<newline>\<newline>Main application source code goes here.''\<rparr>,
     \<lparr>path = ''tests/'', purpose = ''Test files'', priority = Required,
      template = Some ''# Tests\<newline>\<newline>Test suites and test utilities go here.''\<rparr>,
     \<lparr>path = ''docs/'', purpose = ''Documentation'', priority = Recommended,
      template = Some ''# Documentation\<newline>\<newline>Detailed documentation, guides, and API references.''\<rparr>,
     \<lparr>path = ''examples/'', purpose = ''Example code'', priority = Recommended,
      template = Some ''# Examples\<newline>\<newline>Usage examples and sample applications.''\<rparr>,
     \<lparr>path = ''.gitlab/'', purpose = ''GitLab CI/CD config'', priority = Optional,
      template = None\<rparr>,
     \<lparr>path = ''.github/'', purpose = ''GitHub-specific config'', priority = Optional,
      template = None\<rparr>,
     \<lparr>path = ''scripts/'', purpose = ''Build and automation scripts'', priority = Recommended,
      template = None\<rparr>,
     \<lparr>path = ''.well-known/'', purpose = ''RFC-compliant metadata'', priority = Recommended,
      template = None\<rparr>]"

text \<open>
  \<^verbatim>\<open>normalizePath\<close>: lower case, then \<^verbatim>\<open>replace(/\/+$/, '')\<close>, which removes the whole run of
  slashes at the end of the string (the leftmost match of a run that reaches the end).
\<close>

definition normalizePath :: "string \<Rightarrow> string" where
  "normalizePath p = rev (dropWhile (\<lambda>c. c = CHR ''/'') (rev (toLowerCase p)))"

text \<open>
  \<^verbatim>\<open>calculateStructureScore\<close>: one pass over the registry that threads
  \<^verbatim>\<open>(maxPoints, earnedPoints)\<close>. The parameter \<^verbatim>\<open>missing\<close> is unused in the source, as is
  the local \<^verbatim>\<open>total\<close>.
\<close>

fun structurePoints :: "string list \<Rightarrow> DirectoryCheck list \<Rightarrow> nat \<times> nat \<Rightarrow> nat \<times> nat" where
  "structurePoints present [] (maxPoints, earnedPoints) = (maxPoints, earnedPoints)"
| "structurePoints present (dir # dirs) (maxPoints, earnedPoints) =
     (let points = getPriorityWeight (priority dir);
          normalized = normalizePath (path dir);
          isPresent = list_ex (\<lambda>p. normalizePath p = normalized) present
      in structurePoints present dirs
           (maxPoints + points, if isPresent then earnedPoints + points else earnedPoints))"

definition calculateStructureScore :: "DirectoryCheck list \<Rightarrow> string list \<Rightarrow> int" where
  "calculateStructureScore missing present =
     (case structurePoints present STANDARD_DIRECTORIES (0, 0) of
        (maxPoints, earnedPoints) \<Rightarrow>
          if maxPoints > 0 then Math_round ((of_nat earnedPoints / of_nat maxPoints) * 100)
          else 0)"

text \<open>
  The loop of \<^verbatim>\<open>analyzeStructure\<close>: it threads the two arrays \<^verbatim>\<open>missing\<close> and
  \<^verbatim>\<open>present\<close>, and \<^verbatim>\<open>push\<close> appends at the end.
\<close>

fun structureLoop ::
  "string set \<Rightarrow> DirectoryCheck list \<Rightarrow> DirectoryCheck list \<times> string list
     \<Rightarrow> DirectoryCheck list \<times> string list" where
  "structureLoop pathSet [] (missing, present) = (missing, present)"
| "structureLoop pathSet (dir # dirs) (missing, present) =
     (let normalized = normalizePath (path dir)
      in if normalized \<in> pathSet
         then structureLoop pathSet dirs (missing, present @ [path dir])
         else structureLoop pathSet dirs (missing @ [dir], present))"

definition analyzeStructure :: "string list \<Rightarrow> RepoStructure" where
  "analyzeStructure existingPaths =
     (let pathSet = set (map normalizePath existingPaths)
      in case structureLoop pathSet STANDARD_DIRECTORIES ([], []) of
           (missing, present) \<Rightarrow>
             \<lparr>missingDirs = missing, presentDirs = present,
              structureScore = calculateStructureScore missing present\<rparr>)"

section \<open>Community standards helper\<close>

text \<open>The first part of the file \<^verbatim>\<open>src/src/community.ts\<close> (lines 1 to 219).\<close>

definition STANDARD_FILES :: "FileCheck list" where
  "STANDARD_FILES =
    [\<lparr>path = ''LICENSE'', purpose = ''License terms'', priority = Required,
      template = None\<rparr>,
     \<lparr>path = ''LICENSE.txt'', purpose = ''License terms (alternative)'', priority = Required,
      template = None\<rparr>,
     \<lparr>path = ''README.md'', purpose = ''Project overview'', priority = Required,
      template = None\<rparr>,
     \<lparr>path = ''CONTRIBUTING.md'', purpose = ''Contribution guidelines'', priority = Recommended,
      template = None\<rparr>,
     \<lparr>path = ''CODE_OF_CONDUCT.md'', purpose = ''Community conduct standards'',
      priority = Recommended, template = None\<rparr>,
     \<lparr>path = ''SECURITY.md'', purpose = ''Security policies'', priority = Recommended,
      template = None\<rparr>,
     \<lparr>path = ''CHANGELOG.md'', purpose = ''Version history'', priority = Recommended,
      template = None\<rparr>,
     \<lparr>path = ''MAINTAINERS.md'', purpose = ''Project maintainers'', priority = Optional,
      template = None\<rparr>,
     \<lparr>path = ''.well-known/security.txt'', purpose = ''RFC 9116 security contact'',
      priority = Recommended, template = None\<rparr>]"

text \<open>\<^verbatim>\<open>normalizeFilePath\<close>: lower case, then every backslash (code unit 0x5C) becomes a slash.\<close>

definition normalizeFilePath :: "string \<Rightarrow> string" where
  "normalizeFilePath p = map (\<lambda>c. if c = CHR 0x5C then CHR ''/'' else c) (toLowerCase p)"

text \<open>
  \<^verbatim>\<open>calculateCommunityScore\<close>, first loop: \<^verbatim>\<open>maxPoints\<close>, with the set \<^verbatim>\<open>uniqueFiles\<close>
  that lets only the first path starting with LICENSE add its weight.
\<close>

fun communityMaxPoints :: "FileCheck list \<Rightarrow> string set \<times> nat \<Rightarrow> string set \<times> nat" where
  "communityMaxPoints [] (uniqueFiles, maxPoints) = (uniqueFiles, maxPoints)"
| "communityMaxPoints (file # files) (uniqueFiles, maxPoints) =
     (if startsWith (path file) ''LICENSE''
      then (if ''LICENSE'' \<notin> uniqueFiles
            then communityMaxPoints files
                   (insert ''LICENSE'' uniqueFiles, maxPoints + getPriorityWeight (priority file))
            else communityMaxPoints files (uniqueFiles, maxPoints))
      else communityMaxPoints files
             (insert (path file) uniqueFiles, maxPoints + getPriorityWeight (priority file)))"

text \<open>
  Second loop: \<^verbatim>\<open>earnedPoints\<close>. A present path starting with LICENSE earns its weight
  only when no other entry of \<^verbatim>\<open>present\<close> normalizes to a string starting with
  \<^verbatim>\<open>license\<close>.
\<close>

fun communityEarnedPoints :: "string list \<Rightarrow> FileCheck list \<Rightarrow> nat \<Rightarrow> nat" where
  "communityEarnedPoints present [] earnedPoints = earnedPoints"
| "communityEarnedPoints present (file # files) earnedPoints =
     (let normalized = normalizeFilePath (path file);
          isPresent = list_ex (\<lambda>p. normalizeFilePath p = normalized) present
      in if isPresent
         then (if startsWith (path file) ''LICENSE''
               then (let alreadyCounted =
                           list_ex (\<lambda>p. p \<noteq> path file
                                      \<and> startsWith (normalizeFilePath p) ''license'') present
                     in if \<not> alreadyCounted
                        then communityEarnedPoints present files
                               (earnedPoints + getPriorityWeight (priority file))
                        else communityEarnedPoints present files earnedPoints)
               else communityEarnedPoints present files
                      (earnedPoints + getPriorityWeight (priority file)))
         else communityEarnedPoints present files earnedPoints)"

definition calculateCommunityScore :: "FileCheck list \<Rightarrow> string list \<Rightarrow> int" where
  "calculateCommunityScore missing present =
     (let maxPoints = snd (communityMaxPoints STANDARD_FILES ({}, 0));
          earnedPoints = communityEarnedPoints present STANDARD_FILES 0
      in if maxPoints > 0 then Math_round ((of_nat earnedPoints / of_nat maxPoints) * 100)
         else 0)"

text \<open>
  The loop of \<^verbatim>\<open>analyzeCommunityStandards\<close>. Each \<^verbatim>\<open>continue\<close> goes to the next registry
  row and leaves both arrays as they are.
\<close>

fun communityLoop ::
  "string set \<Rightarrow> bool \<Rightarrow> FileCheck list \<Rightarrow> FileCheck list \<times> string list
     \<Rightarrow> FileCheck list \<times> string list" where
  "communityLoop fileSet hasLicense [] (missing, present) = (missing, present)"
| "communityLoop fileSet hasLicense (file # files) (missing, present) =
     (let normalized = normalizeFilePath (path file)
      in if path file = ''LICENSE.txt'' \<and> hasLicense
         then communityLoop fileSet hasLicense files (missing, present)
         else if path file = ''LICENSE'' \<and> ''license.txt'' \<in> fileSet
         then communityLoop fileSet hasLicense files (missing, present)
         else if normalized \<in> fileSet
         then communityLoop fileSet hasLicense files (missing, present @ [path file])
         else communityLoop fileSet hasLicense files (missing @ [file], present))"

definition analyzeCommunityStandards :: "string list \<Rightarrow> CommunityStandards" where
  "analyzeCommunityStandards existingFiles =
     (let fileSet = set (map normalizeFilePath existingFiles);
          hasLicense = (''license'' \<in> fileSet \<or> ''license.txt'' \<in> fileSet
                          \<or> ''license.md'' \<in> fileSet)
      in case communityLoop fileSet hasLicense STANDARD_FILES ([], []) of
           (missing, present) \<Rightarrow>
             \<lparr>missingFiles = missing, presentFiles = present,
              communityScore = calculateCommunityScore missing present\<rparr>)"

text \<open>
  \<^verbatim>\<open>checkRSRCompliance\<close>. The local array \<^verbatim>\<open>required\<close> is never read in the source.
\<close>

definition checkRSRCompliance :: "CommunityStandards \<Rightarrow> bool" where
  "checkRSRCompliance standards =
     (let presentNormalized = set (map normalizeFilePath (presentFiles standards));
          hasReadme = (''readme.md'' \<in> presentNormalized);
          hasLicense = (''license'' \<in> presentNormalized \<or> ''license.txt'' \<in> presentNormalized);
          hasSecurity = (''security.md'' \<in> presentNormalized);
          hasContributing = (''contributing.md'' \<in> presentNormalized);
          hasCodeOfConduct = (''code_of_conduct.md'' \<in> presentNormalized)
      in hasReadme \<and> hasLicense \<and> hasSecurity \<and> hasContributing \<and> hasCodeOfConduct)"

section \<open>Auxiliary facts\<close>

subsection \<open>Rounding and sums\<close>

lemma Math_round_0: "Math_round 0 = 0"
  by (simp add: Math_round_def floor_eq_iff)

lemma Math_round_full: "0 < m \<Longrightarrow> Math_round ((of_nat m / of_nat m) * 100) = 100"
  by (simp add: Math_round_def floor_eq_iff)

lemma Math_round_fraction:
  assumes "0 < b"
  shows "Math_round (of_int a / of_int b) = (2 * a + b) div (2 * b)"
proof -
  have "(of_int a / of_int b + 1 / 2 :: rat) = of_int (2 * a + b) / of_int (2 * b)"
    using assms by (simp add: field_simps)
  then show ?thesis
    unfolding Math_round_def by (simp only: floor_divide_of_int_eq)
qed

lemma Math_round_numeral:
  "Math_round (numeral a / numeral b) = (2 * numeral a + numeral b) div (2 * numeral b)"
  "Math_round (numeral a) = numeral a"
  using Math_round_fraction [of "numeral b" "numeral a"]
  by (simp_all add: Math_round_def floor_eq_iff)

lemmas score_eval = Let_def Math_round_0 Math_round_numeral

lemma Math_round_mono: "x \<le> y \<Longrightarrow> Math_round x \<le> Math_round y"
  unfolding Math_round_def by (simp add: floor_mono)

lemma Math_round_ratio_bounds:
  assumes "e \<le> m" and "0 < m"
  shows "0 \<le> Math_round ((of_nat e / of_nat m) * 100)"
    and "Math_round ((of_nat e / of_nat m) * 100) \<le> 100"
proof -
  let ?x = "(of_nat e / of_nat m :: rat) * 100"
  have lo: "0 \<le> ?x" by simp
  have "(of_nat e / of_nat m :: rat) \<le> 1" using assms by simp
  then have "?x \<le> 1 * 100" by (intro mult_right_mono) simp_all
  then have hi: "?x \<le> 100" by simp
  from lo have "0 \<le> ?x + 1 / 2" by simp
  then show "0 \<le> Math_round ?x" unfolding Math_round_def by simp
  from hi have "?x + 1 / 2 < 101" by simp
  then have "\<lfloor>?x + 1 / 2\<rfloor> < 101" by (simp add: floor_less_iff)
  then show "Math_round ?x \<le> 100" unfolding Math_round_def by simp
qed

lemma sum_list_filter_le:
  fixes f :: "'a \<Rightarrow> nat"
  shows "sum_list (map f (filter P xs)) \<le> sum_list (map f xs)"
  by (induction xs) auto

lemma sum_list_filter_mono:
  fixes f :: "'a \<Rightarrow> nat"
  assumes "\<And>x. x \<in> set xs \<Longrightarrow> P x \<Longrightarrow> Q x"
  shows "sum_list (map f (filter P xs)) \<le> sum_list (map f (filter Q xs))"
  using assms by (induction xs) (auto simp: trans_le_add2)

subsection \<open>The structure analyzer\<close>

text \<open>Both loops of the structure analyzer in closed form.\<close>

lemma structureLoop_filter:
  "structureLoop S ds (m, p) =
     (m @ filter (\<lambda>d. normalizePath (path d) \<notin> S) ds,
      p @ map path (filter (\<lambda>d. normalizePath (path d) \<in> S) ds))"
  by (induction ds arbitrary: m p) (simp_all add: Let_def)

lemma structurePoints_sums:
  "structurePoints present ds (mx, e) =
     (mx + sum_list (map (\<lambda>d. getPriorityWeight (priority d)) ds),
      e + sum_list (map (\<lambda>d. getPriorityWeight (priority d))
            (filter (\<lambda>d. list_ex (\<lambda>p. normalizePath p = normalizePath (path d)) present) ds)))"
  by (induction ds arbitrary: mx e) (simp_all add: Let_def)

lemma structure_weights_total:
  "sum_list (map (\<lambda>d. getPriorityWeight (priority d)) STANDARD_DIRECTORIES) = 42"
  by (simp add: STANDARD_DIRECTORIES_def)

lemma calculateStructureScore_bounds:
  "0 \<le> calculateStructureScore missing present \<and> calculateStructureScore missing present \<le> 100"
proof -
  obtain mx e where pts: "structurePoints present STANDARD_DIRECTORIES (0, 0) = (mx, e)"
    by (cases "structurePoints present STANDARD_DIRECTORIES (0, 0)")
  then have "e \<le> mx"
    by (simp add: structurePoints_sums) (metis sum_list_filter_le)
  then show ?thesis
    using pts Math_round_ratio_bounds [of e mx]
    by (simp add: calculateStructureScore_def)
qed

text \<open>The normal forms of the registry paths, and of the inputs used below.\<close>

lemma normalizePath_registry:
  "normalizePath ''src/'' = ''src''"
  "normalizePath ''tests/'' = ''tests''"
  "normalizePath ''docs/'' = ''docs''"
  "normalizePath ''examples/'' = ''examples''"
  "normalizePath ''.gitlab/'' = ''.gitlab''"
  "normalizePath ''.github/'' = ''.github''"
  "normalizePath ''scripts/'' = ''scripts''"
  "normalizePath ''.well-known/'' = ''.well-known''"
  by code_simp+

lemma normalizePath_inputs:
  "normalizePath ''SRC/'' = ''src''"
  "normalizePath ''Tests/'' = ''tests''"
  by code_simp+

lemmas structure_eval =
  analyzeStructure_def calculateStructureScore_def STANDARD_DIRECTORIES_def
  normalizePath_registry normalizePath_inputs

lemma structureLoop_all_present:
  assumes "set (map path ds) \<subseteq> set ps"
  shows "structureLoop (set (map normalizePath ps)) ds ([], []) = ([], map path ds)"
proof -
  have "\<forall>d \<in> set ds. normalizePath (path d) \<in> set (map normalizePath ps)"
    using assms by auto
  then have "filter (\<lambda>d. normalizePath (path d) \<notin> set (map normalizePath ps)) ds = []"
    and "filter (\<lambda>d. normalizePath (path d) \<in> set (map normalizePath ps)) ds = ds"
    by (simp_all add: filter_empty_conv filter_id_conv)
  then show ?thesis by (simp add: structureLoop_filter)
qed

lemma structurePoints_all_present:
  "structurePoints (map path ds) ds (0, 0) =
     (sum_list (map (\<lambda>d. getPriorityWeight (priority d)) ds),
      sum_list (map (\<lambda>d. getPriorityWeight (priority d)) ds))"
proof -
  have "\<forall>d \<in> set ds. list_ex (\<lambda>p. normalizePath p = normalizePath (path d)) (map path ds)"
    by (auto simp: list_ex_iff)
  then have "filter (\<lambda>d. list_ex (\<lambda>p. normalizePath p = normalizePath (path d)) (map path ds)) ds = ds"
    by (simp add: filter_id_conv)
  then show ?thesis by (simp add: structurePoints_sums)
qed

lemma analyzeStructure_present:
  "presentDirs (analyzeStructure ps) =
     map path (filter (\<lambda>d. normalizePath (path d) \<in> set (map normalizePath ps))
                 STANDARD_DIRECTORIES)"
  by (simp add: analyzeStructure_def structureLoop_filter)

text \<open>
  Matching a row: a registry row is present exactly when some input has its normal form,
  and two strings that agree up to case and up to slashes at the end have one normal form.
\<close>

lemma dropWhile_replicate_append:
  "P c \<Longrightarrow> dropWhile P (replicate k c @ ys) = dropWhile P ys"
  by (induction k) simp_all

lemma normalizePath_trailing_slashes:
  assumes "toLowerCase q @ replicate m (CHR ''/'') = toLowerCase r @ replicate n (CHR ''/'')"
  shows "normalizePath q = normalizePath r"
proof -
  have strip: "rev (dropWhile (\<lambda>c. c = CHR ''/'') (rev (xs @ replicate k (CHR ''/''))))
                 = rev (dropWhile (\<lambda>c. c = CHR ''/'') (rev xs))" for xs k
    by (simp add: dropWhile_replicate_append)
  have "normalizePath q
          = rev (dropWhile (\<lambda>c. c = CHR ''/'') (rev (toLowerCase q @ replicate m (CHR ''/''))))"
    unfolding normalizePath_def strip ..
  also have "\<dots> = rev (dropWhile (\<lambda>c. c = CHR ''/'') (rev (toLowerCase r @ replicate n (CHR ''/''))))"
    by (simp only: assms)
  also have "\<dots> = normalizePath r"
    unfolding normalizePath_def strip ..
  finally show ?thesis .
qed

lemma analyzeStructure_missing:
  "missingDirs (analyzeStructure ps) =
     filter (\<lambda>d. normalizePath (path d) \<notin> set (map normalizePath ps)) STANDARD_DIRECTORIES"
  by (simp add: analyzeStructure_def structureLoop_filter)

lemma analyzeStructure_row_present_iff:
  assumes "d \<in> set STANDARD_DIRECTORIES"
  shows "path d \<in> set (presentDirs (analyzeStructure ps))
           \<longleftrightarrow> (\<exists>q \<in> set ps. normalizePath q = normalizePath (path d))"
    and "d \<in> set (missingDirs (analyzeStructure ps))
           \<longleftrightarrow> \<not> (\<exists>q \<in> set ps. normalizePath q = normalizePath (path d))"
proof -
  have "path d \<in> set (presentDirs (analyzeStructure ps))
          \<longleftrightarrow> normalizePath (path d) \<in> set (map normalizePath ps)"
    using assms unfolding analyzeStructure_present by force
  also have "\<dots> \<longleftrightarrow> (\<exists>q \<in> set ps. normalizePath q = normalizePath (path d))"
    by (simp add: image_iff eq_commute)
  finally show present: "path d \<in> set (presentDirs (analyzeStructure ps))
           \<longleftrightarrow> (\<exists>q \<in> set ps. normalizePath q = normalizePath (path d))" .
  show "d \<in> set (missingDirs (analyzeStructure ps))
           \<longleftrightarrow> \<not> (\<exists>q \<in> set ps. normalizePath q = normalizePath (path d))"
    using assms unfolding analyzeStructure_missing by (simp add: image_iff eq_commute)
qed

lemma toLowerCase_inputs:
  "toLowerCase ''SRC'' = ''src''"
  "toLowerCase ''src/'' = ''src/''"
  by code_simp+

lemma analyzeStructure_score:
  "structureScore (analyzeStructure ps) = calculateStructureScore [] (presentDirs (analyzeStructure ps))"
  by (simp add: analyzeStructure_def calculateStructureScore_def split: prod.split)

text \<open>A larger input never lowers the structure score.\<close>

lemma analyzeStructure_score_mono:
  assumes "set ps \<subseteq> set qs"
  shows "structureScore (analyzeStructure ps) \<le> structureScore (analyzeStructure qs)"
proof -
  let ?w = "\<lambda>d :: DirectoryCheck. getPriorityWeight (priority d)"
  let ?hit = "\<lambda>present (d :: DirectoryCheck).
                list_ex (\<lambda>p. normalizePath p = normalizePath (path d)) present"
  let ?P = "presentDirs (analyzeStructure ps)" and ?Q = "presentDirs (analyzeStructure qs)"
  have sub: "set ?P \<subseteq> set ?Q"
    using assms unfolding analyzeStructure_present by auto
  have "?hit ?P d \<Longrightarrow> ?hit ?Q d" for d
    using sub by (auto simp: list_ex_iff)
  then have e: "sum_list (map ?w (filter (?hit ?P) STANDARD_DIRECTORIES))
             \<le> sum_list (map ?w (filter (?hit ?Q) STANDARD_DIRECTORIES))"
    by (intro sum_list_filter_mono)
  have "calculateStructureScore [] ?P \<le> calculateStructureScore [] ?Q"
    using e
    by (simp add: calculateStructureScore_def structurePoints_sums structure_weights_total
        Math_round_mono divide_right_mono)
  then show ?thesis by (simp add: analyzeStructure_score)
qed

subsection \<open>The community analyzer\<close>

lemma normalizeFilePath_registry:
  "normalizeFilePath ''LICENSE'' = ''license''"
  "normalizeFilePath ''LICENSE.txt'' = ''license.txt''"
  "normalizeFilePath ''README.md'' = ''readme.md''"
  "normalizeFilePath ''CONTRIBUTING.md'' = ''contributing.md''"
  "normalizeFilePath ''CODE_OF_CONDUCT.md'' = ''code_of_conduct.md''"
  "normalizeFilePath ''SECURITY.md'' = ''security.md''"
  "normalizeFilePath ''CHANGELOG.md'' = ''changelog.md''"
  "normalizeFilePath ''MAINTAINERS.md'' = ''maintainers.md''"
  "normalizeFilePath ''.well-known/security.txt'' = ''.well-known/security.txt''"
  by code_simp+

lemma normalizeFilePath_inputs:
  "normalizeFilePath ''readme.md'' = ''readme.md''"
  by code_simp

lemmas community_eval =
  analyzeCommunityStandards_def calculateCommunityScore_def checkRSRCompliance_def
  STANDARD_FILES_def normalizeFilePath_registry normalizeFilePath_inputs startsWith_def

lemma startsWith_registry:
  "startsWith ''LICENSE'' ''LICENSE''"
  "startsWith ''LICENSE.txt'' ''LICENSE''"
  "\<not> startsWith ''README.md'' ''LICENSE''"
  "\<not> startsWith ''CONTRIBUTING.md'' ''LICENSE''"
  "\<not> startsWith ''CODE_OF_CONDUCT.md'' ''LICENSE''"
  "\<not> startsWith ''SECURITY.md'' ''LICENSE''"
  "\<not> startsWith ''CHANGELOG.md'' ''LICENSE''"
  "\<not> startsWith ''MAINTAINERS.md'' ''LICENSE''"
  "\<not> startsWith ''.well-known/security.txt'' ''LICENSE''"
  by (simp_all add: startsWith_def)

lemma communityLoop_filter:
  assumes keep: "keep = (\<lambda>f. \<not> (path f = ''LICENSE.txt'' \<and> h)
                              \<and> \<not> (path f = ''LICENSE'' \<and> ''license.txt'' \<in> S))"
  shows "communityLoop S h fs (m, p) =
     (m @ filter (\<lambda>f. keep f \<and> normalizeFilePath (path f) \<notin> S) fs,
      p @ map path (filter (\<lambda>f. keep f \<and> normalizeFilePath (path f) \<in> S) fs))"
proof (induction fs arbitrary: m p)
  case Nil
  show ?case by simp
next
  case (Cons f fs)
  define c1 where "c1 \<longleftrightarrow> path f = ''LICENSE.txt'' \<and> h"
  define c2 where "c2 \<longleftrightarrow> path f = ''LICENSE'' \<and> ''license.txt'' \<in> S"
  have step: "communityLoop S h (f # fs) (m, p) =
      (if c1 then communityLoop S h fs (m, p)
       else if c2 then communityLoop S h fs (m, p)
       else if normalizeFilePath (path f) \<in> S then communityLoop S h fs (m, p @ [path f])
       else communityLoop S h fs (m @ [f], p))"
    by (simp add: c1_def c2_def Let_def)
  have kf: "keep f \<longleftrightarrow> \<not> c1 \<and> \<not> c2"
    by (simp add: keep c1_def c2_def)
  show ?case
    unfolding step by (simp add: kf Cons.IH)
qed

lemma communityMaxPoints_registry:
  "snd (communityMaxPoints STANDARD_FILES ({}, 0)) = 46"
  by (simp add: STANDARD_FILES_def startsWith_registry)

lemma communityEarnedPoints_le_weights:
  "communityEarnedPoints present fs e
     \<le> e + sum_list (map (\<lambda>f. getPriorityWeight (priority f)) fs)"
proof (induction fs arbitrary: e)
  case Nil
  show ?case by simp
next
  case (Cons f fs)
  show ?case
    using Cons.IH [of "e + getPriorityWeight (priority f)"] Cons.IH [of e]
    by (simp add: Let_def)
qed

lemma communityEarnedPoints_append:
  "communityEarnedPoints present (xs @ ys) e =
     communityEarnedPoints present ys (communityEarnedPoints present xs e)"
  by (induction xs arbitrary: e) (simp_all add: Let_def)

lemma license_rows_earn_once:
  "communityEarnedPoints present (take 2 STANDARD_FILES) 0 \<le> 10"
proof (cases "list_ex (\<lambda>p. normalizeFilePath p = ''license.txt'') present")
  case False
  then show ?thesis
    by (simp add: STANDARD_FILES_def Let_def normalizeFilePath_registry startsWith_registry)
next
  case True
  then obtain p where p: "p \<in> set present" "normalizeFilePath p = ''license.txt''"
    by (auto simp: list_ex_iff)
  have "p \<noteq> ''LICENSE''"
    using p(2) by (auto simp: normalizeFilePath_registry)
  moreover have "startsWith (normalizeFilePath p) ''license''"
    by (simp add: p(2) startsWith_def)
  ultimately have "list_ex (\<lambda>p. p \<noteq> ''LICENSE'' \<and> startsWith (normalizeFilePath p) ''license'') present"
    using p(1) by (auto simp: list_ex_iff)
  then show ?thesis
    by (simp add: STANDARD_FILES_def Let_def normalizeFilePath_registry startsWith_registry)
qed

lemma communityEarnedPoints_registry_le:
  "communityEarnedPoints present STANDARD_FILES 0 \<le> 46"
proof -
  have "communityEarnedPoints present STANDARD_FILES 0 =
          communityEarnedPoints present (drop 2 STANDARD_FILES)
            (communityEarnedPoints present (take 2 STANDARD_FILES) 0)"
    using communityEarnedPoints_append [of present "take 2 STANDARD_FILES" "drop 2 STANDARD_FILES" 0]
    by simp
  also have "\<dots> \<le> communityEarnedPoints present (take 2 STANDARD_FILES) 0
                   + sum_list (map (\<lambda>f. getPriorityWeight (priority f)) (drop 2 STANDARD_FILES))"
    by (rule communityEarnedPoints_le_weights)
  also have "\<dots> \<le> 10 + sum_list (map (\<lambda>f. getPriorityWeight (priority f)) (drop 2 STANDARD_FILES))"
    using license_rows_earn_once [of present] by simp
  also have "\<dots> = 46"
    by (simp add: STANDARD_FILES_def)
  finally show ?thesis .
qed

lemma calculateCommunityScore_bounds:
  "0 \<le> calculateCommunityScore missing present \<and> calculateCommunityScore missing present \<le> 100"
  using Math_round_ratio_bounds [of "communityEarnedPoints present STANDARD_FILES 0" 46]
    communityEarnedPoints_registry_le [of present]
  by (simp add: calculateCommunityScore_def communityMaxPoints_registry)

lemma communityLoop_license_txt:
  assumes "''license.txt'' \<in> S"
  shows "communityLoop S True STANDARD_FILES ([], []) =
           (filter (\<lambda>f. normalizeFilePath (path f) \<notin> S) (drop 2 STANDARD_FILES),
            map path (filter (\<lambda>f. normalizeFilePath (path f) \<in> S) (drop 2 STANDARD_FILES)))"
proof -
  define keep where "keep = (\<lambda>f :: FileCheck. \<not> (path f = ''LICENSE.txt'' \<and> True)
                              \<and> \<not> (path f = ''LICENSE'' \<and> ''license.txt'' \<in> S))"
  have kept: "filter keep STANDARD_FILES = drop 2 STANDARD_FILES"
    using assms by (simp add: keep_def STANDARD_FILES_def)
  have "filter (\<lambda>f. keep f \<and> Q f) STANDARD_FILES = filter Q (drop 2 STANDARD_FILES)" for Q
    using kept by (simp add: filter_filter [symmetric] del: filter_filter)
  then show ?thesis
    using communityLoop_filter [OF keep_def, of STANDARD_FILES "[]" "[]"] by simp
qed

lemma analyzeCommunityStandards_present:
  "presentFiles (analyzeCommunityStandards fs) =
     map path (filter (\<lambda>f. path f \<noteq> ''LICENSE.txt''
                           \<and> \<not> (path f = ''LICENSE''
                                 \<and> ''license.txt'' \<in> set (map normalizeFilePath fs))
                           \<and> normalizeFilePath (path f) \<in> set (map normalizeFilePath fs))
                 STANDARD_FILES)"
proof -
  let ?S = "set (map normalizeFilePath fs)"
  let ?h = "''license'' \<in> ?S \<or> ''license.txt'' \<in> ?S \<or> ''license.md'' \<in> ?S"
  have "presentFiles (analyzeCommunityStandards fs) =
      map path (filter (\<lambda>f. (\<not> (path f = ''LICENSE.txt'' \<and> ?h)
                              \<and> \<not> (path f = ''LICENSE'' \<and> ''license.txt'' \<in> ?S))
                           \<and> normalizeFilePath (path f) \<in> ?S) STANDARD_FILES)"
    using communityLoop_filter [OF refl, of ?S ?h STANDARD_FILES "[]" "[]"]
    by (simp add: analyzeCommunityStandards_def Let_def)
  also have "\<dots> = map path (filter (\<lambda>f. path f \<noteq> ''LICENSE.txt''
                           \<and> \<not> (path f = ''LICENSE'' \<and> ''license.txt'' \<in> ?S)
                           \<and> normalizeFilePath (path f) \<in> ?S) STANDARD_FILES)"
    by (intro arg_cong [where f = "map path"] filter_cong refl)
      (auto simp: normalizeFilePath_registry)
  finally show ?thesis .
qed

text \<open>
  What \<^const>\<open>checkRSRCompliance\<close> decides on an analyzer result, in terms of the normalized
  input: the license must be there as \<^verbatim>\<open>license\<close>, and \<^verbatim>\<open>license.txt\<close> must not be there.
\<close>

lemma checkRSRCompliance_analyze_iff:
  "checkRSRCompliance (analyzeCommunityStandards fs) \<longleftrightarrow>
     ''readme.md'' \<in> set (map normalizeFilePath fs)
     \<and> ''license'' \<in> set (map normalizeFilePath fs)
     \<and> ''license.txt'' \<notin> set (map normalizeFilePath fs)
     \<and> ''security.md'' \<in> set (map normalizeFilePath fs)
     \<and> ''contributing.md'' \<in> set (map normalizeFilePath fs)
     \<and> ''code_of_conduct.md'' \<in> set (map normalizeFilePath fs)"
proof -
  let ?S = "set (map normalizeFilePath fs)"
  have mem: "x \<in> set (map normalizeFilePath (presentFiles (analyzeCommunityStandards fs)))
      \<longleftrightarrow> (\<exists>f \<in> set STANDARD_FILES. path f \<noteq> ''LICENSE.txt''
              \<and> \<not> (path f = ''LICENSE'' \<and> ''license.txt'' \<in> ?S)
              \<and> normalizeFilePath (path f) \<in> ?S \<and> x = normalizeFilePath (path f))" for x
    unfolding analyzeCommunityStandards_present by auto
  show ?thesis
    unfolding checkRSRCompliance_def Let_def mem
    by (simp add: STANDARD_FILES_def normalizeFilePath_registry) blast
qed

section \<open>Claims\<close>

text \<open>
  C1 (the code breaks it): the scores of \<^verbatim>\<open>["README.md","LICENSE"]\<close> and of
  \<^verbatim>\<open>["README.md","LICENSE.txt"]\<close> should differ by at most 1. The code returns 43 and 22.
\<close>

theorem C1_license_alias_scores_differ:
  "communityScore (analyzeCommunityStandards [''README.md'', ''LICENSE'']) = 43
   \<and> communityScore (analyzeCommunityStandards [''README.md'', ''LICENSE.txt'']) = 22
   \<and> \<not> abs (communityScore (analyzeCommunityStandards [''README.md'', ''LICENSE''])
             - communityScore (analyzeCommunityStandards [''README.md'', ''LICENSE.txt''])) \<le> 1"
  by (simp add: community_eval score_eval)

text \<open>
  C2 (the code breaks it): the license class should earn its weight 10 once whenever an alias
  is in the input. On \<^verbatim>\<open>["LICENSE.txt"]\<close> the present list is empty, nothing is earned of
  the 46 maximal points (to which the class does add its weight once), and the score is 0.
\<close>

theorem C2_license_txt_earns_nothing:
  "presentFiles (analyzeCommunityStandards [''LICENSE.txt'']) = []
   \<and> communityEarnedPoints (presentFiles (analyzeCommunityStandards [''LICENSE.txt'']))
        STANDARD_FILES 0 = 0
   \<and> snd (communityMaxPoints STANDARD_FILES ({}, 0)) = 46
   \<and> communityScore (analyzeCommunityStandards [''LICENSE.txt'']) = 0"
  by (simp add: community_eval score_eval)

text \<open>
  C3 (the code breaks it): an input with \<^verbatim>\<open>README.md\<close>, \<^verbatim>\<open>LICENSE.txt\<close>, \<^verbatim>\<open>SECURITY.md\<close>,
  \<^verbatim>\<open>CONTRIBUTING.md\<close> and \<^verbatim>\<open>CODE_OF_CONDUCT.md\<close> should be RSR compliant. The code
  answers false.
\<close>

theorem C3_rsr_rejects_license_txt:
  "\<not> checkRSRCompliance (analyzeCommunityStandards
        [''README.md'', ''LICENSE.txt'', ''SECURITY.md'', ''CONTRIBUTING.md'',
         ''CODE_OF_CONDUCT.md''])"
  by (simp add: community_eval score_eval)

text \<open>
  C4 (the code breaks it): adding the path of a required registry row that is not in the input
  should never lower the score. Adding \<^verbatim>\<open>LICENSE.txt\<close> to \<^verbatim>\<open>["LICENSE"]\<close> lowers the
  community score from 22 to 0.
\<close>

theorem C4_adding_license_txt_lowers_score:
  "(''LICENSE.txt'', Required) \<in> set (map (\<lambda>f. (path f, priority f)) STANDARD_FILES)
   \<and> ''LICENSE.txt'' \<notin> set [''LICENSE'']
   \<and> communityScore (analyzeCommunityStandards [''LICENSE'']) = 22
   \<and> communityScore (analyzeCommunityStandards [''LICENSE'', ''LICENSE.txt'']) = 0"
  by (simp add: community_eval score_eval)

text \<open>
  C5, as stated: the priority weights of the eight rows of \<^const>\<open>STANDARD_DIRECTORIES\<close> sum
  to 38 (two required, three recommended, three optional rows). The sum is not 38.
\<close>

theorem C5_structure_weight_sum_not_38:
  "sum_list (map (\<lambda>d. getPriorityWeight (priority d)) STANDARD_DIRECTORIES) \<noteq> 38"
  by (simp add: STANDARD_DIRECTORIES_def)

text \<open>
  C5, amended: the registry has eight rows, two required, four recommended and two optional,
  so the weights sum to 2 * 10 + 4 * 5 + 2 * 1 = 42, which is also the \<^verbatim>\<open>maxPoints\<close> that
  \<^verbatim>\<open>calculateStructureScore\<close> computes, whatever is present.
\<close>

theorem C5_structure_weight_sum_42:
  "sum_list (map (\<lambda>d. getPriorityWeight (priority d)) STANDARD_DIRECTORIES) = 42
   \<and> length STANDARD_DIRECTORIES = 8
   \<and> length (filter (\<lambda>d. priority d = Required) STANDARD_DIRECTORIES) = 2
   \<and> length (filter (\<lambda>d. priority d = Recommended) STANDARD_DIRECTORIES) = 4
   \<and> length (filter (\<lambda>d. priority d = Optional) STANDARD_DIRECTORIES) = 2
   \<and> fst (structurePoints present STANDARD_DIRECTORIES (0, 0)) = 42"
  by (simp add: STANDARD_DIRECTORIES_def Let_def)

text \<open>
  C6, as stated: the present list records the raw strings of the caller, not the registry's
  spelling. The input \<^verbatim>\<open>SRC/\<close> is recorded as \<^verbatim>\<open>src/\<close> and the input \<^verbatim>\<open>readme.md\<close> as
  \<^verbatim>\<open>README.md\<close>, neither of which the caller supplied.
\<close>

theorem C6_present_is_canonical_not_raw:
  "presentDirs (analyzeStructure [''SRC/'']) = [''src/'']
   \<and> ''src/'' \<notin> set [''SRC/'']
   \<and> presentFiles (analyzeCommunityStandards [''readme.md'']) = [''README.md'']
   \<and> ''README.md'' \<notin> set [''readme.md'']"
  by (simp add: community_eval structure_eval score_eval)

text \<open>
  C6, amended: both loops push \<^verbatim>\<open>dir.path\<close> and \<^verbatim>\<open>file.path\<close>, so the present list is, in
  registry order, the registry's own path of every row whose normalized path is among the
  normalized inputs; in the community analyzer without the rows that the license handling
  skips (the row \<^verbatim>\<open>LICENSE.txt\<close> always, the row \<^verbatim>\<open>LICENSE\<close> when \<^verbatim>\<open>license.txt\<close> is among
  the normalized inputs).
\<close>

theorem C6_present_lists_registry_paths:
  "presentDirs (analyzeStructure ps) =
     map path (filter (\<lambda>d. normalizePath (path d) \<in> set (map normalizePath ps))
                 STANDARD_DIRECTORIES)
   \<and> presentFiles (analyzeCommunityStandards fs) =
     map path (filter (\<lambda>f. path f \<noteq> ''LICENSE.txt''
                           \<and> \<not> (path f = ''LICENSE''
                                 \<and> ''license.txt'' \<in> set (map normalizeFilePath fs))
                           \<and> normalizeFilePath (path f) \<in> set (map normalizeFilePath fs))
                 STANDARD_FILES)"
  using analyzeStructure_present [of ps] analyzeCommunityStandards_present [of fs]
  by (rule conjI)

text \<open>
  C7: \<^const>\<open>analyzeStructure\<close> of the empty list returns score 0, an empty present list and
  all eight registry rows as missing; on a list that contains every registry path it returns
  score 100 and no missing row.
\<close>

theorem C7_analyzeStructure_empty_and_full:
  "analyzeStructure [] =
     \<lparr>missingDirs = STANDARD_DIRECTORIES, presentDirs = [], structureScore = 0\<rparr>
   \<and> length STANDARD_DIRECTORIES = 8
   \<and> (set (map path STANDARD_DIRECTORIES) \<subseteq> set ps \<longrightarrow>
        structureScore (analyzeStructure ps) = 100 \<and> missingDirs (analyzeStructure ps) = [])"
proof (intro conjI impI)
  show "analyzeStructure [] =
     \<lparr>missingDirs = STANDARD_DIRECTORIES, presentDirs = [], structureScore = 0\<rparr>"
    by (simp add: analyzeStructure_def structureLoop_filter calculateStructureScore_def
        structurePoints_sums structure_weights_total Math_round_0)
  show "length STANDARD_DIRECTORIES = 8"
    by (simp add: STANDARD_DIRECTORIES_def)
next
  assume full: "set (map path STANDARD_DIRECTORIES) \<subseteq> set ps"
  have loop: "structureLoop (set (map normalizePath ps)) STANDARD_DIRECTORIES ([], [])
                = ([], map path STANDARD_DIRECTORIES)"
    using full by (rule structureLoop_all_present)
  have "calculateStructureScore [] (map path STANDARD_DIRECTORIES) = 100"
    using Math_round_full [of 42]
    by (simp add: calculateStructureScore_def structurePoints_all_present structure_weights_total)
  with loop show "structureScore (analyzeStructure ps) = 100"
    by (simp add: analyzeStructure_def)
  from loop show "missingDirs (analyzeStructure ps) = []"
    by (simp add: analyzeStructure_def)
qed

text \<open>The second half of C7 at the list of the eight registry paths.\<close>

theorem C7_analyzeStructure_full_witness:
  "set (map path STANDARD_DIRECTORIES)
     \<subseteq> set [''src/'', ''tests/'', ''docs/'', ''examples/'', ''.gitlab/'', ''.github/'',
            ''scripts/'', ''.well-known/'']
   \<and> structureScore (analyzeStructure [''src/'', ''tests/'', ''docs/'', ''examples/'',
        ''.gitlab/'', ''.github/'', ''scripts/'', ''.well-known/'']) = 100
   \<and> missingDirs (analyzeStructure [''src/'', ''tests/'', ''docs/'', ''examples/'',
        ''.gitlab/'', ''.github/'', ''scripts/'', ''.well-known/'']) = []"
proof -
  have h: "set (map path STANDARD_DIRECTORIES)
     \<subseteq> set [''src/'', ''tests/'', ''docs/'', ''examples/'', ''.gitlab/'', ''.github/'',
            ''scripts/'', ''.well-known/'']"
    by (simp add: STANDARD_DIRECTORIES_def)
  show ?thesis
    using h C7_analyzeStructure_empty_and_full [of "[''src/'', ''tests/'', ''docs/'',
       ''examples/'', ''.gitlab/'', ''.github/'', ''scripts/'', ''.well-known/'']"]
    by blast
qed

text \<open>
  C8: \<^verbatim>\<open>analyzeStructure(["SRC/","Tests/"])\<close> marks the rows \<^verbatim>\<open>src/\<close> and \<^verbatim>\<open>tests/\<close> as
  present, the other six rows being the missing ones. Matching is case-insensitive and
  tolerant of trailing slashes for every input: a registry row is present (and not missing)
  exactly when some input has the row's normal form, and two strings whose lower-case forms
  agree up to slashes at the end have the same normal form.
\<close>

theorem C8_analyzeStructure_case_insensitive:
  "presentDirs (analyzeStructure [''SRC/'', ''Tests/'']) = [''src/'', ''tests/'']
   \<and> map path (missingDirs (analyzeStructure [''SRC/'', ''Tests/''])) =
       [''docs/'', ''examples/'', ''.gitlab/'', ''.github/'', ''scripts/'', ''.well-known/'']
   \<and> (d \<in> set STANDARD_DIRECTORIES \<longrightarrow>
        (path d \<in> set (presentDirs (analyzeStructure ps))
           \<longleftrightarrow> (\<exists>q \<in> set ps. normalizePath q = normalizePath (path d)))
        \<and> (d \<in> set (missingDirs (analyzeStructure ps))
           \<longleftrightarrow> \<not> (\<exists>q \<in> set ps. normalizePath q = normalizePath (path d))))
   \<and> (toLowerCase q @ replicate m (CHR ''/'') = toLowerCase r @ replicate n (CHR ''/'')
        \<longrightarrow> normalizePath q = normalizePath r)"
proof (intro conjI impI)
  show "presentDirs (analyzeStructure [''SRC/'', ''Tests/'']) = [''src/'', ''tests/'']"
    by (simp add: structure_eval score_eval)
  show "map path (missingDirs (analyzeStructure [''SRC/'', ''Tests/''])) =
       [''docs/'', ''examples/'', ''.gitlab/'', ''.github/'', ''scripts/'', ''.well-known/'']"
    by (simp add: structure_eval score_eval)
next
  assume d: "d \<in> set STANDARD_DIRECTORIES"
  show "path d \<in> set (presentDirs (analyzeStructure ps))
           \<longleftrightarrow> (\<exists>q \<in> set ps. normalizePath q = normalizePath (path d))"
    using d by (rule analyzeStructure_row_present_iff)
  show "d \<in> set (missingDirs (analyzeStructure ps))
           \<longleftrightarrow> \<not> (\<exists>q \<in> set ps. normalizePath q = normalizePath (path d))"
    using d by (rule analyzeStructure_row_present_iff)
next
  assume "toLowerCase q @ replicate m (CHR ''/'') = toLowerCase r @ replicate n (CHR ''/'')"
  then show "normalizePath q = normalizePath r"
    by (rule normalizePath_trailing_slashes)
qed

text \<open>
  C8 at inputs that differ from the registry in case and in slashes: \<^verbatim>\<open>SRC\<close> against the
  row \<^verbatim>\<open>src/\<close>, in the input list \<^verbatim>\<open>["Tests///","SRC"]\<close>.
\<close>

theorem C8_case_and_slash_witness:
  "hd STANDARD_DIRECTORIES \<in> set STANDARD_DIRECTORIES
   \<and> path (hd STANDARD_DIRECTORIES) = ''src/''
   \<and> toLowerCase ''SRC'' @ replicate 1 (CHR ''/'') = toLowerCase ''src/'' @ replicate 0 (CHR ''/'')
   \<and> normalizePath ''SRC'' = normalizePath ''src/''
   \<and> ''src/'' \<in> set (presentDirs (analyzeStructure [''Tests///'', ''SRC'']))
   \<and> hd STANDARD_DIRECTORIES \<notin> set (missingDirs (analyzeStructure [''Tests///'', ''SRC'']))"
proof -
  have row: "hd STANDARD_DIRECTORIES \<in> set STANDARD_DIRECTORIES"
    and pth: "path (hd STANDARD_DIRECTORIES) = ''src/''"
    by (simp_all add: STANDARD_DIRECTORIES_def)
  have low: "toLowerCase ''SRC'' @ replicate 1 (CHR ''/'')
               = toLowerCase ''src/'' @ replicate 0 (CHR ''/'')"
    by (simp add: toLowerCase_inputs)
  have same: "normalizePath ''SRC'' = normalizePath ''src/''"
    and iffs: "(path (hd STANDARD_DIRECTORIES)
                  \<in> set (presentDirs (analyzeStructure [''Tests///'', ''SRC'']))
                \<longleftrightarrow> (\<exists>q \<in> set [''Tests///'', ''SRC''].
                       normalizePath q = normalizePath (path (hd STANDARD_DIRECTORIES))))
             \<and> (hd STANDARD_DIRECTORIES
                  \<in> set (missingDirs (analyzeStructure [''Tests///'', ''SRC'']))
                \<longleftrightarrow> \<not> (\<exists>q \<in> set [''Tests///'', ''SRC''].
                       normalizePath q = normalizePath (path (hd STANDARD_DIRECTORIES))))"
    using row low
      C8_analyzeStructure_case_insensitive [of "hd STANDARD_DIRECTORIES"
        "[''Tests///'', ''SRC'']" "''SRC''" 1 "''src/''" 0]
    by blast+
  from iffs same pth have "''src/'' \<in> set (presentDirs (analyzeStructure [''Tests///'', ''SRC'']))"
    and "hd STANDARD_DIRECTORIES \<notin> set (missingDirs (analyzeStructure [''Tests///'', ''SRC'']))"
    by simp_all
  with row pth low same show ?thesis by blast
qed

text \<open>
  C9: when the normalized input contains \<^verbatim>\<open>license.txt\<close>, the result of
  \<^const>\<open>analyzeCommunityStandards\<close> has no license alias in its present list and neither
  the row \<^verbatim>\<open>LICENSE\<close> nor the row \<^verbatim>\<open>LICENSE.txt\<close> in its missing list, the two lists have
  7 entries together while the registry has 9 rows, and \<^const>\<open>checkRSRCompliance\<close> of the
  result is false.
\<close>

theorem C9_license_txt_skips_both_license_rows:
  assumes "''license.txt'' \<in> set (map normalizeFilePath fs)"
  shows "(\<forall>p \<in> set (presentFiles (analyzeCommunityStandards fs)).
            normalizeFilePath p \<notin> {''license'', ''license.txt'', ''license.md''})
       \<and> (\<forall>f \<in> set (missingFiles (analyzeCommunityStandards fs)).
            path f \<noteq> ''LICENSE'' \<and> path f \<noteq> ''LICENSE.txt'')
       \<and> length (missingFiles (analyzeCommunityStandards fs))
           + length (presentFiles (analyzeCommunityStandards fs)) = 7
       \<and> length STANDARD_FILES = 9
       \<and> \<not> checkRSRCompliance (analyzeCommunityStandards fs)"
proof -
  let ?S = "set (map normalizeFilePath fs)"
  let ?r = "analyzeCommunityStandards fs"
  have missing: "missingFiles ?r
      = filter (\<lambda>f. normalizeFilePath (path f) \<notin> ?S) (drop 2 STANDARD_FILES)"
    and present: "presentFiles ?r
      = map path (filter (\<lambda>f. normalizeFilePath (path f) \<in> ?S) (drop 2 STANDARD_FILES))"
    using assms communityLoop_license_txt [OF assms]
    by (simp_all add: analyzeCommunityStandards_def)
  have "set (presentFiles ?r) \<subseteq> set (map path (drop 2 STANDARD_FILES))"
    unfolding present by auto
  then have sub: "set (presentFiles ?r) \<subseteq> {''README.md'', ''CONTRIBUTING.md'',
      ''CODE_OF_CONDUCT.md'', ''SECURITY.md'', ''CHANGELOG.md'', ''MAINTAINERS.md'',
      ''.well-known/security.txt''}"
    by (simp add: STANDARD_FILES_def)
  have p: "\<forall>p \<in> set (presentFiles ?r).
            normalizeFilePath p \<notin> {''license'', ''license.txt'', ''license.md''}"
    using sub by (auto simp: normalizeFilePath_registry)
  have "set (missingFiles ?r) \<subseteq> set (drop 2 STANDARD_FILES)"
    unfolding missing by auto
  then have m: "\<forall>f \<in> set (missingFiles ?r). path f \<noteq> ''LICENSE'' \<and> path f \<noteq> ''LICENSE.txt''"
    by (auto simp: STANDARD_FILES_def)
  have "length (missingFiles ?r) + length (presentFiles ?r) = length (drop 2 STANDARD_FILES)"
    unfolding missing present
    using sum_length_filter_compl [of "\<lambda>f. normalizeFilePath (path f) \<in> ?S" "drop 2 STANDARD_FILES"]
    by simp
  then have l: "length (missingFiles ?r) + length (presentFiles ?r) = 7"
    by (simp add: STANDARD_FILES_def)
  have n: "length STANDARD_FILES = 9"
    by (simp add: STANDARD_FILES_def)
  have c: "\<not> checkRSRCompliance ?r"
    using p by (auto simp: checkRSRCompliance_def Let_def)
  from p m l n c show ?thesis by blast
qed

text \<open>C9 at the input \<^verbatim>\<open>["README.md","LICENSE.txt"]\<close>.\<close>

theorem C9_license_txt_witness:
  "''license.txt'' \<in> set (map normalizeFilePath [''README.md'', ''LICENSE.txt''])
   \<and> presentFiles (analyzeCommunityStandards [''README.md'', ''LICENSE.txt'']) = [''README.md'']
   \<and> length (missingFiles (analyzeCommunityStandards [''README.md'', ''LICENSE.txt''])) = 6
   \<and> length (missingFiles (analyzeCommunityStandards [''README.md'', ''LICENSE.txt'']))
       + length (presentFiles (analyzeCommunityStandards [''README.md'', ''LICENSE.txt''])) = 7
   \<and> \<not> checkRSRCompliance (analyzeCommunityStandards [''README.md'', ''LICENSE.txt''])"
proof -
  have h: "''license.txt'' \<in> set (map normalizeFilePath [''README.md'', ''LICENSE.txt''])"
    by (simp add: normalizeFilePath_registry)
  have e: "presentFiles (analyzeCommunityStandards [''README.md'', ''LICENSE.txt'']) = [''README.md'']"
    by (simp add: community_eval score_eval)
  show ?thesis
    using h e C9_license_txt_skips_both_license_rows [OF h] by simp
qed

text \<open>
  C10: for every input list the score of \<^const>\<open>analyzeStructure\<close> and the score of
  \<^const>\<open>analyzeCommunityStandards\<close> are integers between 0 and 100; in both score
  functions the earned points never exceed the maximal points, whatever list of present
  paths they are given.
\<close>

theorem C10_scores_between_0_and_100:
  "0 \<le> structureScore (analyzeStructure ps) \<and> structureScore (analyzeStructure ps) \<le> 100
   \<and> 0 \<le> communityScore (analyzeCommunityStandards fs)
   \<and> communityScore (analyzeCommunityStandards fs) \<le> 100
   \<and> snd (structurePoints present STANDARD_DIRECTORIES (0, 0))
        \<le> fst (structurePoints present STANDARD_DIRECTORIES (0, 0))
   \<and> communityEarnedPoints present STANDARD_FILES 0
        \<le> snd (communityMaxPoints STANDARD_FILES ({}, 0))"
proof -
  have s: "0 \<le> structureScore (analyzeStructure ps) \<and> structureScore (analyzeStructure ps) \<le> 100"
    using calculateStructureScore_bounds
    by (simp add: analyzeStructure_def Let_def split: prod.split)
  have c: "0 \<le> communityScore (analyzeCommunityStandards fs)
           \<and> communityScore (analyzeCommunityStandards fs) \<le> 100"
    using calculateCommunityScore_bounds
    by (simp add: analyzeCommunityStandards_def Let_def split: prod.split)
  have p: "snd (structurePoints present STANDARD_DIRECTORIES (0, 0))
        \<le> fst (structurePoints present STANDARD_DIRECTORIES (0, 0))"
    by (simp add: structurePoints_sums sum_list_filter_le)
  have e: "communityEarnedPoints present STANDARD_FILES 0
        \<le> snd (communityMaxPoints STANDARD_FILES ({}, 0))"
    by (simp add: communityMaxPoints_registry communityEarnedPoints_registry_le)
  from s c p e show ?thesis by simp
qed

end
